theory Spec2Isabelle
  imports Main "HOL-Library.Char_ord" "HOL-Library.List_Lexorder" "HOL-Library.Multiset"
begin

section \<open>Values of the Python program\<close>

text \<open>
  A cluster identifier as the predictor hands it out: an integer (numpy integer), a string,
  or the missing value that pandas stores where a cell has no value. Other floating-point
  values are not modelled.
\<close>

datatype pyval = PInt int | PStr string | PNaN

text \<open>Python's \<open>==\<close> on these values: an integer never equals a string, and the missing
  value equals nothing, not even itself.\<close>

fun py_eq :: "pyval \<Rightarrow> pyval \<Rightarrow> bool" where
  "py_eq (PInt i) (PInt j) = (i = j)"
| "py_eq (PStr s) (PStr t) = (s = t)"
| "py_eq _ _ = False"

text \<open>\<open>str()\<close> of an integer: its decimal digits, with a minus sign when negative.\<close>

definition digit :: "nat \<Rightarrow> char" where
  "digit d = ''0123456789'' ! d"

fun digits :: "nat \<Rightarrow> string" where
  "digits n = (if n < 10 then [digit n] else digits (n div 10) @ [digit (n mod 10)])"

declare digits.simps [simp del]

definition str_int :: "int \<Rightarrow> string" where
  "str_int i = (if i < 0 then CHR ''-'' # digits (nat (- i)) else digits (nat i))"

fun py_str :: "pyval \<Rightarrow> string" where
  "py_str (PInt i) = str_int i"
| "py_str (PStr s) = s"
| "py_str PNaN = ''nan''"

text \<open>Strings are UTF-8 byte sequences; the Polish letters of the program's messages.\<close>

definition l_stroke :: string where "l_stroke = [CHR 0xC5, CHR 0x82]"
definition z_dot :: string where "z_dot = [CHR 0xC5, CHR 0xBC]"
definition z_acute :: string where "z_acute = [CHR 0xC5, CHR 0xBA]"
definition s_acute :: string where "s_acute = [CHR 0xC5, CHR 0x9B]"
definition c_acute :: string where "c_acute = [CHR 0xC4, CHR 0x87]"
definition o_acute :: string where "o_acute = [CHR 0xC3, CHR 0xB3]"
definition a_ogonek :: string where "a_ogonek = [CHR 0xC4, CHR 0x85]"
definition e_ogonek :: string where "e_ogonek = [CHR 0xC4, CHR 0x99]"
definition apostrophe :: string where "apostrophe = [CHR 0x27]"

section \<open>Tables\<close>

text \<open>
  A participant record: the text cells of the CSV's columns by column label (no entry where
  the cell is missing) and the cell of the \<open>Cluster\<close> column (\<open>PNaN\<close> where the row has
  none). A data frame is its column labels and its rows in order.
\<close>

record row =
  cells :: "string \<rightharpoonup> string"
  Cluster :: pyval

record dataframe =
  columns :: "string list"
  rows :: "row list"

text \<open>\<open>len(df)\<close> and \<open>df.empty\<close> (true when either axis has length zero).\<close>

definition len :: "dataframe \<Rightarrow> nat" where
  "len df = length (rows df)"

definition df_empty :: "dataframe \<Rightarrow> bool" where
  "df_empty df = (columns df = [] \<or> rows df = [])"

section \<open>The outside world\<close>

datatype exn = OSError | ValueError | KeyError | IndexError | JSONDecodeError | Exception string

type_synonym path = string

record stat_result =
  st_mtime_ns :: int
  st_size :: int

text \<open>A cluster metadata entry is a JSON object with string fields; the metadata file is a
  JSON object of such entries by cluster-id string.\<close>

type_synonym entry = "string \<rightharpoonup> string"
type_synonym cluster_meta = "string \<rightharpoonup> entry"

text \<open>A loaded model is what \<open>predict_model\<close> does with it on a table.\<close>

type_synonym model = "dataframe \<Rightarrow> exn + dataframe"

text \<open>
  The file system and the libraries the program calls. Each may raise:
  \<open>with_suffix w name sfx\<close> is \<open>(MODELS_DIR / name).with_suffix(sfx)\<close>,
  \<open>stat\<close> is \<open>Path.stat\<close>, \<open>path_exists\<close> is \<open>Path.exists\<close>, \<open>json_load\<close> opens
  and parses a JSON file, \<open>read_csv\<close> is \<open>pd.read_csv(path, sep=';', encoding='utf-8')\<close>
  and \<open>load_model\<close> is PyCaret's.
\<close>

record world =
  with_suffix :: "string \<Rightarrow> string \<Rightarrow> exn + path"
  stat :: "path \<Rightarrow> exn + stat_result"
  path_exists :: "path \<Rightarrow> bool"
  json_load :: "path \<Rightarrow> exn + cluster_meta"
  read_csv :: "path \<Rightarrow> exn + dataframe"
  load_model :: "path \<Rightarrow> exn + model"

definition predict_model :: "model \<Rightarrow> dataframe \<Rightarrow> exn + dataframe" where
  "predict_model m df = m df"

definition MODEL_NAME :: string where "MODEL_NAME = ''model_4''"
definition DATA_FILE :: path where "DATA_FILE = ''data/data.csv''"

section \<open>The model signature\<close>

text \<open>Lines 52 and 53 of \<open>get_model_signature\<close>: the path of the artifact and its stat;
  either step may raise.\<close>

definition pkl_stat :: "world \<Rightarrow> string \<Rightarrow> exn + stat_result" where
  "pkl_stat w model_name =
     (case with_suffix w model_name ''.pkl'' of
        Inl e \<Rightarrow> Inl e
      | Inr pkl_path \<Rightarrow> stat w pkl_path)"

text \<open>The formatted string of line 54.\<close>

definition signature_of :: "string \<Rightarrow> stat_result \<Rightarrow> string" where
  "signature_of model_name stt =
     model_name @ '':'' @ str_int (st_mtime_ns stt) @ '':'' @ str_int (st_size stt)"

text \<open>The \<open>try\<close> block, and \<open>except Exception: return model_name\<close>.\<close>

definition get_model_signature :: "world \<Rightarrow> string \<Rightarrow> string" where
  "get_model_signature w model_name =
     (case pkl_stat w model_name of
        Inl e \<Rightarrow> model_name
      | Inr stt \<Rightarrow> signature_of model_name stt)"

section \<open>Page elements, outcomes and caches\<close>

record figure =
  fig_data :: dataframe
  fig_x :: string
  fig_title :: string
  xaxis_title :: string
  yaxis_title :: string

text \<open>What a render puts on the page: \<open>st.error\<close>, \<open>st.header\<close>, \<open>st.markdown\<close>,
  \<open>st.metric\<close>, \<open>st.info\<close> and \<open>st.plotly_chart\<close> (with its \<open>use_container_width\<close>).\<close>

datatype element =
    Error string
  | Header string
  | Markdown string
  | Metric string nat
  | Info string
  | PlotlyChart figure bool




text \<open>How a piece of the script ends: with a value, by \<open>st.stop()\<close>, or by an exception
  nobody catches. A run is the elements it displayed and how it ended.\<close>

datatype 'a res = Ok 'a | Stopped | Crashed exn

type_synonym 'a run = "element list \<times> 'a res"

text \<open>
  \<open>st.cache_data\<close> and \<open>st.cache_resource\<close>: a stored value is returned without running the
  body; otherwise the body runs, and its value is stored when it returns one. The key is
  built from the hashed arguments only.
\<close>

definition st_cache :: "('k \<rightharpoonup> 'v) \<Rightarrow> 'k \<Rightarrow> 'v run \<Rightarrow> 'v run \<times> ('k \<rightharpoonup> 'v)" where
  "st_cache cache key body =
     (case cache key of
        Some v \<Rightarrow> (([], Ok v), cache)
      | None \<Rightarrow>
          (case snd body of
             Ok v \<Rightarrow> (body, cache(key \<mapsto> v))
           | Stopped \<Rightarrow> (body, cache)
           | Crashed e \<Rightarrow> (body, cache)))"

record caches =
  model_cache :: "string \<rightharpoonup> model"
  meta_cache :: "path \<rightharpoonup> cluster_meta"
  data_cache :: "path \<times> string \<rightharpoonup> dataframe"

section \<open>The cached loaders\<close>




definition msg_no_data :: "path \<Rightarrow> string" where
  "msg_no_data data_path = ''Brak pliku z danymi: '' @ data_path"

definition msg_bulk :: string where
  "msg_bulk =
     ''Wynik predict_model nie zawiera kolumny '' @ apostrophe @ ''Cluster'' @ apostrophe
       @ ''. Sprawd'' @ z_acute @ '' zgodno'' @ s_acute @ c_acute @ '' modelu i danych.''"

text \<open>The body of \<open>get_all_participants\<close>; \<open>model_sig\<close> is an argument the body never reads.\<close>

definition get_all_participants :: "world \<Rightarrow> path \<Rightarrow> model \<Rightarrow> string \<Rightarrow> dataframe run" where
  "get_all_participants w data_path model model_sig =
     (if \<not> path_exists w data_path then ([Error (msg_no_data data_path)], Stopped)
      else (case read_csv w data_path of
              Inl e \<Rightarrow> ([], Crashed e)
            | Inr all_df \<Rightarrow>
                (case predict_model model all_df of
                   Inl e \<Rightarrow> ([], Crashed e)
                 | Inr df_with_clusters \<Rightarrow>
                     (if ''Cluster'' \<notin> set (columns df_with_clusters)
                      then ([Error msg_bulk], Stopped)
                      else ([], Ok df_with_clusters)))))"



definition cached_get_all_participants ::
  "world \<Rightarrow> caches \<Rightarrow> path \<Rightarrow> model \<Rightarrow> string \<Rightarrow> dataframe run \<times> caches" where
  "cached_get_all_participants w c data_path model model_sig =
     (case st_cache (data_cache c) (data_path, model_sig)
             (get_all_participants w data_path model model_sig) of
        (r, dc) \<Rightarrow> (r, c\<lparr>data_cache := dc\<rparr>))"

section \<open>The form and the prediction for the user\<close>




section \<open>Name and description of the cluster\<close>

definition predicted_cluster_id_str :: "pyval \<Rightarrow> string" where
  "predicted_cluster_id_str predicted_cluster_id = py_str predicted_cluster_id"

definition dict_get :: "('k \<rightharpoonup> 'v) \<Rightarrow> 'k \<Rightarrow> 'v \<Rightarrow> 'v" where
  "dict_get d k dflt = (case d k of None \<Rightarrow> dflt | Some v \<Rightarrow> v)"

definition desc_no_entry :: string where
  "desc_no_entry =
     ''Brak opisu dla tego klastra. Uzupe'' @ l_stroke @ ''nij plik cfg/nazwy_klastrow_4.json.''"

definition desc_no_field :: string where
  "desc_no_field = ''Brak opisu dla tego klastra.''"

definition cluster_name :: "cluster_meta \<Rightarrow> pyval \<Rightarrow> string" where
  "cluster_name cluster_meta predicted_cluster_id =
     (case cluster_meta (predicted_cluster_id_str predicted_cluster_id) of
        None \<Rightarrow> ''Klaster '' @ py_str predicted_cluster_id
      | Some entry \<Rightarrow> dict_get entry ''name'' (''Klaster '' @ py_str predicted_cluster_id))"

definition cluster_desc :: "cluster_meta \<Rightarrow> pyval \<Rightarrow> string" where
  "cluster_desc cluster_meta predicted_cluster_id =
     (case cluster_meta (predicted_cluster_id_str predicted_cluster_id) of
        None \<Rightarrow> desc_no_entry
      | Some entry \<Rightarrow> dict_get entry ''description'' desc_no_field)"

definition header_text :: "string \<Rightarrow> string" where
  "header_text name = ''Najbli'' @ z_dot @ ''ej Ci do grupy: '' @ name"

section \<open>The peer group\<close>

text \<open>The comparison of one row's \<open>Cluster\<close> cell with the predicted identifier, and
  \<open>all_df[all_df["Cluster"] == predicted_cluster_id]\<close>, which raises when the column is
  not there.\<close>

definition row_matches :: "pyval \<Rightarrow> row \<Rightarrow> bool" where
  "row_matches predicted_cluster_id r = py_eq (Cluster r) predicted_cluster_id"

definition same_cluster_df :: "dataframe \<Rightarrow> pyval \<Rightarrow> exn + dataframe" where
  "same_cluster_df all_df predicted_cluster_id =
     (if ''Cluster'' \<notin> set (columns all_df) then Inl KeyError
      else Inr (all_df\<lparr>rows := filter (row_matches predicted_cluster_id) (rows all_df)\<rparr>))"

definition metric_label :: string where
  "metric_label = ''Liczba os'' @ o_acute @ ''b w Twojej grupie''"

definition msg_no_peers :: string where
  "msg_no_peers =
     ''Brak os'' @ o_acute @ ''b w tej grupie (lub brak danych). Dodaj rekordy do data/data.csv.''"

section \<open>The charts\<close>

text \<open>
  \<open>sort_values(col)\<close> with its defaults: a new table, the rows in ascending order of the
  column's text (a stable sort stands for pandas' sort, which fixes no order among equal
  keys), rows with a missing cell last. The table it is called on is not changed.
\<close>

definition cell_key :: "string \<Rightarrow> row \<Rightarrow> string" where
  "cell_key col r = (case cells r col of None \<Rightarrow> [] | Some s \<Rightarrow> s)"

definition sort_rows :: "string \<Rightarrow> row list \<Rightarrow> row list" where
  "sort_rows col rs =
     sort_key (cell_key col) (filter (\<lambda>r. cells r col \<noteq> None) rs)
       @ filter (\<lambda>r. cells r col = None) rs"

definition sort_values :: "string \<Rightarrow> dataframe \<Rightarrow> exn + dataframe" where
  "sort_values col df =
     (if col \<notin> set (columns df) then Inl KeyError
      else Inr (df\<lparr>rows := sort_rows col (rows df)\<rparr>))"

definition y_title :: string where
  "y_title = ''Liczba os'' @ o_acute @ ''b''"

text \<open>\<open>px.histogram\<close>, \<open>fig.update_layout\<close> and \<open>st.plotly_chart\<close> for one column.\<close>

definition plot :: "dataframe \<Rightarrow> string \<Rightarrow> string \<Rightarrow> string \<Rightarrow> element" where
  "plot df col title xt =
     PlotlyChart \<lparr>fig_data = df, fig_x = col, fig_title = title, xaxis_title = xt,
                  yaxis_title = y_title\<rparr> True"

text \<open>The chart section runs on the variable \<open>same_cluster_df\<close> (here \<open>frame\<close>) and the
  elements shown so far.\<close>

record page =
  frame :: dataframe
  shown :: "element list"

definition title_age :: string where
  "title_age = ''Rozk'' @ l_stroke @ ''ad wieku w grupie''"
definition title_edu_level :: string where
  "title_edu_level = ''Rozk'' @ l_stroke @ ''ad wykszta'' @ l_stroke @ ''cenia w grupie''"
definition title_fav_animals :: string where
  "title_fav_animals = ''Rozk'' @ l_stroke @ ''ad ulubionych zwierz'' @ a_ogonek @ ''t w grupie''"
definition title_fav_place :: string where
  "title_fav_place = ''Rozk'' @ l_stroke @ ''ad ulubionych miejsc w grupie''"
definition title_gender :: string where
  "title_gender = ''Rozk'' @ l_stroke @ ''ad p'' @ l_stroke @ ''ci w grupie''"

definition xt_edu_level :: string where
  "xt_edu_level = ''Wykszta'' @ l_stroke @ ''cenie''"
definition xt_fav_animals :: string where
  "xt_fav_animals = ''Ulubione zwierz'' @ e_ogonek @ ''ta''"
definition xt_gender :: string where
  "xt_gender = ''P'' @ l_stroke @ ''e'' @ c_acute"

definition chart_age :: "page \<Rightarrow> page \<times> unit res" where
  "chart_age s =
     (if ''age'' \<in> set (columns (frame s)) then
        (case sort_values ''age'' (frame s) of
           Inl e \<Rightarrow> (s, Crashed e)
         | Inr by_age \<Rightarrow> (s\<lparr>shown := shown s @ [plot by_age ''age'' title_age ''Wiek'']\<rparr>, Ok ()))
      else (s, Ok ()))"

definition chart_col :: "string \<Rightarrow> string \<Rightarrow> string \<Rightarrow> page \<Rightarrow> page" where
  "chart_col col title xt s =
     (if col \<in> set (columns (frame s))
      then s\<lparr>shown := shown s @ [plot (frame s) col title xt]\<rparr>
      else s)"

definition charts :: "dataframe \<Rightarrow> unit run" where
  "charts scdf =
     (case chart_age \<lparr>frame = scdf, shown = []\<rparr> of
        (s, Crashed e) \<Rightarrow> (shown s, Crashed e)
      | (s, Stopped) \<Rightarrow> (shown s, Stopped)
      | (s, Ok u) \<Rightarrow>
          (shown (chart_col ''gender'' title_gender xt_gender
                   (chart_col ''fav_place'' title_fav_place ''Ulubione miejsce''
                     (chart_col ''fav_animals'' title_fav_animals xt_fav_animals
                       (chart_col ''edu_level'' title_edu_level xt_edu_level s)))),
           Ok ()))"

section \<open>The render\<close>

text \<open>Lines 142 to 197: header and description, the peer group, its size, and either the
  message and the stop or the charts.\<close>

definition present_results :: "cluster_meta \<Rightarrow> dataframe \<Rightarrow> pyval \<Rightarrow> unit run" where
  "present_results cluster_meta all_df predicted_cluster_id =
     (let top = [Header (header_text (cluster_name cluster_meta predicted_cluster_id)),
                 Markdown (cluster_desc cluster_meta predicted_cluster_id)]
      in case same_cluster_df all_df predicted_cluster_id of
           Inl e \<Rightarrow> (top, Crashed e)
         | Inr scdf \<Rightarrow>
             (if df_empty scdf
              then (top @ [Metric metric_label (len scdf), Info msg_no_peers], Stopped)
              else (case charts scdf of
                      (els, r) \<Rightarrow> (top @ [Metric metric_label (len scdf)] @ els, r))))"



section \<open>Auxiliary definitions and example data\<close>

text \<open>The value of a decimal digit character: its position among the digits.\<close>

definition digit_val :: "char \<Rightarrow> nat" where
  "digit_val c = length (takeWhile (\<lambda>d. d \<noteq> c) ''0123456789'')"

text \<open>A world in which only the artifact of \<open>model_4\<close> can be stat'ed.\<close>

definition demo_world :: "int \<Rightarrow> int \<Rightarrow> world" where
  "demo_world mtime sz =
     \<lparr>with_suffix = (\<lambda>name sfx. Inr (''models/'' @ name @ sfx)),
      stat = (\<lambda>p. if p = ''models/model_4.pkl''
                   then Inr \<lparr>st_mtime_ns = mtime, st_size = sz\<rparr> else Inl OSError),
      path_exists = (\<lambda>p. True),
      json_load = (\<lambda>p. Inl JSONDecodeError),
      read_csv = (\<lambda>p. Inl OSError),
      load_model = (\<lambda>p. Inl OSError)\<rparr>"

text \<open>The number of rows whose assigned cluster equals (Python's \<open>==\<close>) an identifier.\<close>

fun count_cluster :: "pyval \<Rightarrow> row list \<Rightarrow> nat" where
  "count_cluster cid [] = 0"
| "count_cluster cid (r # rs) = (if py_eq (Cluster r) cid then 1 else 0) + count_cluster cid rs"

text \<open>Metadata files: the one of Scenario A, and one whose entry has no field.\<close>

definition meta_explorers :: cluster_meta where
  "meta_explorers =
     [''0'' \<mapsto> [''name'' \<mapsto> ''Explorers'', ''description'' \<mapsto> ''Curious and active.'']]"

definition meta_bare :: cluster_meta where
  "meta_bare = [''0'' \<mapsto> Map.empty]"

text \<open>Small participant tables: cluster cells as integers, and as strings.\<close>

definition mk_row :: "string \<Rightarrow> pyval \<Rightarrow> row" where
  "mk_row age cl = \<lparr>cells = [''age'' \<mapsto> age], Cluster = cl\<rparr>"

definition df_int_ids :: dataframe where
  "df_int_ids =
     \<lparr>columns = [''age'', ''Cluster''],
      rows = [mk_row ''25-34'' (PInt 0), mk_row ''18-24'' (PInt 1), mk_row ''<18'' (PInt 0)]\<rparr>"

definition df_str_ids :: dataframe where
  "df_str_ids =
     \<lparr>columns = [''age'', ''Cluster''],
      rows = [mk_row ''25-34'' (PStr ''0''), mk_row ''18-24'' (PStr ''1'')]\<rparr>"





text \<open>A table with two attribute columns, out of age order.\<close>

definition mk_row2 :: "string \<Rightarrow> string \<Rightarrow> pyval \<Rightarrow> row" where
  "mk_row2 age gender cl = \<lparr>cells = [''age'' \<mapsto> age, ''gender'' \<mapsto> gender], Cluster = cl\<rparr>"

definition df_peers :: dataframe where
  "df_peers =
     \<lparr>columns = [''age'', ''gender'', ''Cluster''],
      rows = [mk_row2 ''25-34'' ''Kobieta'' (PInt 0), mk_row2 ''18-24'' ''Kobieta'' (PInt 0)]\<rparr>"

text \<open>The chart of the age column and the chart of another column, each shown only when
  the table has the column.\<close>

definition age_part :: "dataframe \<Rightarrow> element list" where
  "age_part scdf =
     (if ''age'' \<in> set (columns scdf)
      then [plot (scdf\<lparr>rows := sort_rows ''age'' (rows scdf)\<rparr>) ''age'' title_age ''Wiek'']
      else [])"

definition col_part :: "dataframe \<Rightarrow> string \<Rightarrow> string \<Rightarrow> string \<Rightarrow> element list" where
  "col_part scdf col title xt =
     (if col \<in> set (columns scdf) then [plot scdf col title xt] else [])"

text \<open>A model that puts every row into one cluster, two CSV contents, and a world
  in which the files named by \<open>ex\<close> exist, the data file holds \<open>csv\<close> and the artifact
  has a fixed stat.\<close>

definition label_all :: "pyval \<Rightarrow> model" where
  "label_all cl df =
     Inr (df\<lparr>columns := columns df @ [''Cluster''],
             rows := map (\<lambda>r. r\<lparr>Cluster := cl\<rparr>) (rows df)\<rparr>)"

definition csv_one :: dataframe where
  "csv_one = \<lparr>columns = [''age''], rows = [mk_row ''25-34'' PNaN]\<rparr>"

definition csv_two :: dataframe where
  "csv_two = \<lparr>columns = [''age''], rows = [mk_row ''25-34'' PNaN, mk_row ''18-24'' PNaN]\<rparr>"

definition world_of :: "(path \<Rightarrow> bool) \<Rightarrow> dataframe \<Rightarrow> world" where
  "world_of ex csv =
     \<lparr>with_suffix = (\<lambda>name sfx. Inr (''models/'' @ name @ sfx)),
      stat = (\<lambda>p. Inr \<lparr>st_mtime_ns = 1700000000000000000, st_size = 1024\<rparr>),
      path_exists = ex,
      json_load = (\<lambda>p. Inr meta_explorers),
      read_csv = (\<lambda>p. Inr csv),
      load_model = (\<lambda>p. Inr (label_all (PInt 0)))\<rparr>"

definition no_caches :: caches where
  "no_caches = \<lparr>model_cache = Map.empty, meta_cache = Map.empty, data_cache = Map.empty\<rparr>"






section \<open>Decimal strings\<close>

lemma digit_simps:
  "digit 0 = CHR ''0''" "digit 1 = CHR ''1''" "digit 2 = CHR ''2''" "digit 3 = CHR ''3''"
  "digit 4 = CHR ''4''" "digit 5 = CHR ''5''" "digit 6 = CHR ''6''" "digit 7 = CHR ''7''"
  "digit 8 = CHR ''8''" "digit 9 = CHR ''9''"
  by (simp_all add: digit_def)

lemma digit_cases:
  "d < 10 \<Longrightarrow> d = 0 \<or> d = 1 \<or> d = 2 \<or> d = 3 \<or> d = 4 \<or> d = 5 \<or> d = 6 \<or> d = 7 \<or> d = 8 \<or> d = (9::nat)"
  by arith

lemma digit_not_sep:
  assumes "d < 10"
  shows "digit d \<noteq> CHR '':'' \<and> digit d \<noteq> CHR ''-''"
proof -
  from digit_cases [OF assms] show ?thesis
    by (elim disjE) (simp_all only: digit_simps, simp_all)
qed

lemma digit_val_digit:
  assumes "d < 10"
  shows "digit_val (digit d) = d"
proof -
  from digit_cases [OF assms] show ?thesis
    by (elim disjE) (simp_all only: digit_simps, simp_all add: digit_val_def)
qed

lemma digit_inj:
  assumes "a < 10" "b < 10" "digit a = digit b"
  shows "a = b"
proof -
  have "digit_val (digit a) = digit_val (digit b)" using assms(3) by (rule arg_cong)
  then show ?thesis by (simp only: digit_val_digit [OF assms(1)] digit_val_digit [OF assms(2)])
qed

lemma digits_small: "n < 10 \<Longrightarrow> digits n = [digit n]"
  by (subst digits.simps) simp

lemma digits_big: "\<not> n < 10 \<Longrightarrow> digits n = digits (n div 10) @ [digit (n mod 10)]"
  by (subst digits.simps) simp

lemma digits_not_Nil: "digits n \<noteq> []"
  by (cases "n < 10") (simp_all add: digits_small digits_big)

lemma digits_chars: "c \<in> set (digits n) \<Longrightarrow> \<exists>d<10. c = digit d"
proof (induction n rule: digits.induct)
  case (1 n)
  show ?case
  proof (cases "n < 10")
    case True
    with "1.prems" have "c = digit n" by (simp add: digits_small)
    with True show ?thesis by blast
  next
    case False
    with "1.prems" have "c \<in> set (digits (n div 10)) \<or> c = digit (n mod 10)"
      by (auto simp add: digits_big)
    then show ?thesis
    proof
      assume "c \<in> set (digits (n div 10))"
      with "1.IH" False show ?thesis by simp
    next
      assume c: "c = digit (n mod 10)"
      have "n mod 10 < 10" by simp
      with c show ?thesis by blast
    qed
  qed
qed

lemma colon_notin_digits: "CHR '':'' \<notin> set (digits n)"
proof
  assume "CHR '':'' \<in> set (digits n)"
  then obtain d where "d < 10" "CHR '':'' = digit d" using digits_chars by blast
  then show False using digit_not_sep [of d] by simp
qed

lemma minus_notin_digits: "CHR ''-'' \<notin> set (digits n)"
proof
  assume "CHR ''-'' \<in> set (digits n)"
  then obtain d where "d < 10" "CHR ''-'' = digit d" using digits_chars by blast
  then show False using digit_not_sep [of d] by simp
qed

lemma digits_inj: "digits m = digits n \<Longrightarrow> m = n"
proof (induction m arbitrary: n rule: digits.induct)
  case (1 m)
  show ?case
  proof (cases "m < 10")
    case m: True
    show ?thesis
    proof (cases "n < 10")
      case True
      with m "1.prems" have "digit m = digit n" by (simp add: digits_small)
      with m True show ?thesis by (rule digit_inj)
    next
      case False
      with m "1.prems" have "[digit m] = digits (n div 10) @ [digit (n mod 10)]"
        by (simp add: digits_small digits_big)
      then have "digits (n div 10) = []" by simp
      then show ?thesis by (simp add: digits_not_Nil)
    qed
  next
    case m: False
    show ?thesis
    proof (cases "n < 10")
      case True
      with m "1.prems" have "digits (m div 10) @ [digit (m mod 10)] = [digit n]"
        by (simp add: digits_small digits_big)
      then have "digits (m div 10) = []" by simp
      then show ?thesis by (simp add: digits_not_Nil)
    next
      case False
      with m "1.prems" have "digits (m div 10) @ [digit (m mod 10)] = digits (n div 10) @ [digit (n mod 10)]"
        by (simp add: digits_big)
      then have eq: "digits (m div 10) = digits (n div 10)"
        and d: "digit (m mod 10) = digit (n mod 10)"
        by simp_all
      from "1.IH" [OF m eq] have q: "m div 10 = n div 10" .
      have "m mod 10 < 10" "n mod 10 < 10" by simp_all
      then have r: "m mod 10 = n mod 10" using d by (rule digit_inj)
      have "m = 10 * (m div 10) + m mod 10" by simp
      also have "\<dots> = 10 * (n div 10) + n mod 10" by (simp only: q r)
      also have "\<dots> = n" by simp
      finally show ?thesis .
    qed
  qed
qed

lemma hd_digits_not_minus: "hd (digits n) \<noteq> CHR ''-''"
proof
  assume "hd (digits n) = CHR ''-''"
  moreover have "hd (digits n) \<in> set (digits n)" using digits_not_Nil by (rule hd_in_set)
  ultimately show False using minus_notin_digits [of n] by simp
qed

lemma str_int_inj: "str_int i = str_int j \<Longrightarrow> i = j"
proof -
  assume eq: "str_int i = str_int j"
  show ?thesis
  proof (cases "i < 0")
    case i: True
    show ?thesis
    proof (cases "j < 0")
      case True
      with i eq have "digits (nat (- i)) = digits (nat (- j))" by (simp add: str_int_def)
      then have "nat (- i) = nat (- j)" by (rule digits_inj)
      with i True show ?thesis by simp
    next
      case False
      with i eq have "CHR ''-'' # digits (nat (- i)) = digits (nat j)" by (simp add: str_int_def)
      then have "hd (digits (nat j)) = CHR ''-''" by (metis list.sel(1))
      with hd_digits_not_minus show ?thesis by blast
    qed
  next
    case i: False
    show ?thesis
    proof (cases "j < 0")
      case True
      with i eq have "digits (nat i) = CHR ''-'' # digits (nat (- j))" by (simp add: str_int_def)
      then have "hd (digits (nat i)) = CHR ''-''" by (metis list.sel(1))
      with hd_digits_not_minus show ?thesis by blast
    next
      case False
      with i eq have "digits (nat i) = digits (nat j)" by (simp add: str_int_def)
      then have "nat i = nat j" by (rule digits_inj)
      with i False show ?thesis by simp
    qed
  qed
qed

lemma colon_notin_str_int: "CHR '':'' \<notin> set (str_int i)"
  by (simp add: str_int_def colon_notin_digits)

lemma append_sep_inj:
  "c \<notin> set xs \<Longrightarrow> c \<notin> set xs' \<Longrightarrow> xs @ c # ys = xs' @ c # ys' \<Longrightarrow> xs = xs' \<and> ys = ys'"
proof (induction xs arbitrary: xs')
  case Nil
  then show ?case by (cases xs') auto
next
  case (Cons a xs)
  then show ?case by (cases xs') auto
qed

lemma sig_suffix_inj:
  "str_int m @ '':'' @ str_int s = str_int m' @ '':'' @ str_int s' \<longleftrightarrow> m = m' \<and> s = s'"
proof
  assume "str_int m @ '':'' @ str_int s = str_int m' @ '':'' @ str_int s'"
  then have "str_int m @ CHR '':'' # str_int s = str_int m' @ CHR '':'' # str_int s'" by simp
  then have "str_int m = str_int m' \<and> str_int s = str_int s'"
    using colon_notin_str_int by (intro append_sep_inj) 
  then show "m = m' \<and> s = s'" using str_int_inj by blast
next
  assume "m = m' \<and> s = s'"
  then show "str_int m @ '':'' @ str_int s = str_int m' @ '':'' @ str_int s'" by simp
qed

section \<open>The model signature: results\<close>

lemma signature_of_inj:
  "signature_of name s1 = signature_of name s2 \<longleftrightarrow>
     st_mtime_ns s1 = st_mtime_ns s2 \<and> st_size s1 = st_size s2"
  unfolding signature_of_def using sig_suffix_inj by simp

text \<open>
  Claim C6. When the artifact of a model name can be stat'ed, \<open>get_model_signature\<close>
  returns the string made of the name, the modification time in nanoseconds and the size in
  bytes; for one name, two such calls (in any two states of the file system) return the
  same string exactly when both the modification time and the size are the same, so the
  strings differ whenever one of them differs. When the path or its stat raises, the
  result is the bare model name.
\<close>

theorem get_model_signature_sensitive:
  "(pkl_stat w1 name = Inr s1 \<and> pkl_stat w2 name = Inr s2 \<longrightarrow>
      get_model_signature w1 name = signature_of name s1 \<and>
      (get_model_signature w1 name = get_model_signature w2 name \<longleftrightarrow>
         st_mtime_ns s1 = st_mtime_ns s2 \<and> st_size s1 = st_size s2))
   \<and> (pkl_stat w name = Inl e \<longrightarrow> get_model_signature w name = name)"
  by (simp add: get_model_signature_def signature_of_inj)

theorem get_model_signature_sensitive_witness:
  "get_model_signature (demo_world 1700000000000000000 1024) ''model_4''
     = ''model_4:1700000000000000000:1024''
   \<and> get_model_signature (demo_world 1700000000000000000 1024) ''model_4''
       \<noteq> get_model_signature (demo_world 1700000000000000000 2048) ''model_4''
   \<and> get_model_signature (demo_world 1700000000000000000 1024) ''model_9'' = ''model_9''"
proof -
  let ?w1 = "demo_world 1700000000000000000 1024"
  let ?w2 = "demo_world 1700000000000000000 2048"
  let ?s1 = "\<lparr>st_mtime_ns = 1700000000000000000, st_size = 1024\<rparr>"
  let ?s2 = "\<lparr>st_mtime_ns = 1700000000000000000, st_size = 2048\<rparr>"
  have p1: "pkl_stat ?w1 ''model_4'' = Inr ?s1"
    by (simp add: pkl_stat_def demo_world_def)
  have p2: "pkl_stat ?w2 ''model_4'' = Inr ?s2"
    by (simp add: pkl_stat_def demo_world_def)
  have p3: "pkl_stat ?w1 ''model_9'' = Inl OSError"
    by (simp add: pkl_stat_def demo_world_def)
  have s: "signature_of ''model_4'' ?s1 = ''model_4:1700000000000000000:1024''"
    by (simp add: signature_of_def str_int_def digits.simps digit_def)
  note t = get_model_signature_sensitive [of ?w1 "''model_4''" ?s1 ?w2 ?s2 ?w1 OSError]
  from t p1 p2
  have a: "get_model_signature ?w1 ''model_4'' = signature_of ''model_4'' ?s1"
    by blast
  from t p1 p2
  have "get_model_signature ?w1 ''model_4'' = get_model_signature ?w2 ''model_4''
          \<longleftrightarrow> st_mtime_ns ?s1 = st_mtime_ns ?s2 \<and> st_size ?s1 = st_size ?s2"
    by blast
  then have b: "get_model_signature ?w1 ''model_4'' \<noteq> get_model_signature ?w2 ''model_4''"
    by simp
  from get_model_signature_sensitive [of _ "''model_9''" _ _ _ ?w1 OSError] p3
  have c: "get_model_signature ?w1 ''model_9'' = ''model_9''"
    by blast
  from a s have "get_model_signature ?w1 ''model_4'' = ''model_4:1700000000000000000:1024''"
    by (rule trans)
  with b c show ?thesis by blast
qed

text \<open>
  Claim C9. \<open>get_model_signature\<close> always returns a string: whatever exception the path
  construction raises, and whatever exception the stat raises, the result is the bare model
  name; otherwise it is the signature built from the stat.
\<close>

theorem get_model_signature_total:
  "get_model_signature w name =
     (case with_suffix w name ''.pkl'' of
        Inl e \<Rightarrow> name
      | Inr p \<Rightarrow> (case stat w p of Inl e \<Rightarrow> name | Inr stt \<Rightarrow> signature_of name stt))"
  by (simp add: get_model_signature_def pkl_stat_def split: sum.splits)

section \<open>Name, description and identifier\<close>

lemma str_int_0: "str_int 0 = ''0''"
  by (simp add: str_int_def digits.simps digit_def)

lemma str_int_5: "str_int 5 = ''5''"
  by (simp add: str_int_def digits.simps digit_def)

lemma present_results_top:
  "\<exists>rest r. present_results cluster_meta all_df cid =
     (Header (header_text (cluster_name cluster_meta cid))
        # Markdown (cluster_desc cluster_meta cid) # rest, r)"
  by (auto simp: present_results_def Let_def split: sum.splits prod.splits)

text \<open>
  Claim C2, as amended. When the string form of the predicted identifier is a key of the
  metadata, the name is the entry's \<open>name\<close> field and the description its
  \<open>description\<close> field; a missing name defaults to \<open>Klaster\<close> followed by the
  identifier, a missing description to the short no-description text. When the key is
  absent, the name is \<open>Klaster\<close> followed by the identifier and the description the
  long fallback text. The page starts with the header made of the fixed prefix and the
  name, then the description.
\<close>

theorem cluster_label_resolution:
  "(cluster_meta (py_str cid) = Some entry \<longrightarrow>
      cluster_name cluster_meta cid
        = (case entry ''name'' of Some n \<Rightarrow> n | None \<Rightarrow> ''Klaster '' @ py_str cid)
      \<and> cluster_desc cluster_meta cid
        = (case entry ''description'' of Some d \<Rightarrow> d | None \<Rightarrow> desc_no_field))
   \<and> (cluster_meta (py_str cid) = None \<longrightarrow>
      cluster_name cluster_meta cid = ''Klaster '' @ py_str cid
      \<and> cluster_desc cluster_meta cid = desc_no_entry)
   \<and> (\<exists>rest r. present_results cluster_meta all_df cid =
         (Header (header_text (cluster_name cluster_meta cid))
            # Markdown (cluster_desc cluster_meta cid) # rest, r))"
proof (intro conjI impI)
  assume e: "cluster_meta (py_str cid) = Some entry"
  then show "cluster_name cluster_meta cid
      = (case entry ''name'' of Some n \<Rightarrow> n | None \<Rightarrow> ''Klaster '' @ py_str cid)"
    by (simp add: cluster_name_def predicted_cluster_id_str_def dict_get_def
        split: option.splits)
  from e show "cluster_desc cluster_meta cid
      = (case entry ''description'' of Some d \<Rightarrow> d | None \<Rightarrow> desc_no_field)"
    by (simp add: cluster_desc_def predicted_cluster_id_str_def dict_get_def
        split: option.splits)
next
  assume "cluster_meta (py_str cid) = None"
  then show "cluster_name cluster_meta cid = ''Klaster '' @ py_str cid"
    and "cluster_desc cluster_meta cid = desc_no_entry"
    by (simp_all add: cluster_name_def cluster_desc_def predicted_cluster_id_str_def)
next
  show "\<exists>rest r. present_results cluster_meta all_df cid =
         (Header (header_text (cluster_name cluster_meta cid))
            # Markdown (cluster_desc cluster_meta cid) # rest, r)"
    by (rule present_results_top)
qed

theorem cluster_label_resolution_witness:
  "cluster_name meta_explorers (PInt 0) = ''Explorers''
   \<and> cluster_desc meta_explorers (PInt 0) = ''Curious and active.''
   \<and> cluster_name meta_explorers (PInt 5) = ''Klaster 5''
   \<and> cluster_desc meta_explorers (PInt 5) = desc_no_entry"
proof -
  have k0: "meta_explorers (py_str (PInt 0))
              = Some [''name'' \<mapsto> ''Explorers'', ''description'' \<mapsto> ''Curious and active.'']"
    by (simp add: meta_explorers_def str_int_0)
  have k5: "meta_explorers (py_str (PInt 5)) = None"
    by (simp add: meta_explorers_def str_int_5)
  from cluster_label_resolution
         [of meta_explorers "PInt 0"
             "[''name'' \<mapsto> ''Explorers'', ''description'' \<mapsto> ''Curious and active.'']"] k0
  have a: "cluster_name meta_explorers (PInt 0) = ''Explorers''
           \<and> cluster_desc meta_explorers (PInt 0) = ''Curious and active.''"
    by simp
  from cluster_label_resolution [of meta_explorers "PInt 5"] k5
  have b: "cluster_name meta_explorers (PInt 5) = ''Klaster 5''
           \<and> cluster_desc meta_explorers (PInt 5) = desc_no_entry"
    by (simp add: str_int_5)
  from a b show ?thesis by blast
qed

text \<open>
  Claim C2 as stated fails: for an entry without a \<open>name\<close> field the default is
  \<open>Klaster 0\<close>, not \<open>Cluster 0\<close>.
\<close>

theorem default_name_counterexample:
  "meta_bare (predicted_cluster_id_str (PInt 0)) = Some Map.empty
   \<and> cluster_name meta_bare (PInt 0) = ''Klaster 0''
   \<and> cluster_name meta_bare (PInt 0) \<noteq> ''Cluster '' @ py_str (PInt 0)"
  by (simp add: cluster_name_def predicted_cluster_id_str_def dict_get_def meta_bare_def str_int_0)

text \<open>
  Claim C5, as amended. The metadata lookup uses the string form of the predicted
  identifier, and the filter compares the identifier as it is: for a string identifier both
  are that string; for an integer identifier the key is its decimal string while the filter
  matches exactly the rows whose cell is that integer.
\<close>

theorem identifier_representations:
  "predicted_cluster_id_str (PStr s) = s
   \<and> row_matches (PStr s) r = (Cluster r = PStr s)
   \<and> predicted_cluster_id_str (PInt i) = str_int i
   \<and> row_matches (PInt i) r = (Cluster r = PInt i)"
  by (cases "Cluster r") (auto simp: predicted_cluster_id_str_def row_matches_def)

text \<open>
  Claim C5 as stated fails: for the integer identifier 0 the lookup finds the entry of key
  \<open>"0"\<close>, while the filter finds no row in a table whose cluster cells are the string
  \<open>"0"\<close> and finds the rows of a table whose cells are the integer 0.
\<close>

theorem mixed_representation_counterexample:
  "PInt 0 \<noteq> PStr (predicted_cluster_id_str (PInt 0))
   \<and> cluster_name meta_explorers (PInt 0) = ''Explorers''
   \<and> same_cluster_df df_str_ids (PInt 0) = Inr (df_str_ids\<lparr>rows := []\<rparr>)
   \<and> same_cluster_df df_int_ids (PInt 0)
       = Inr (df_int_ids\<lparr>rows := [mk_row ''25-34'' (PInt 0), mk_row ''<18'' (PInt 0)]\<rparr>)"
  by (simp add: cluster_name_def predicted_cluster_id_str_def dict_get_def meta_explorers_def
      str_int_0 same_cluster_df_def row_matches_def df_str_ids_def df_int_ids_def mk_row_def)

section \<open>The peer group: results\<close>

lemma count_cluster_filter:
  "count_cluster cid rs = length (filter (row_matches cid) rs)"
  by (induction rs) (simp_all add: row_matches_def)

lemma count_list_filter:
  "count_list (filter P xs) r = (if P r then count_list xs r else 0)"
  by (induction xs) auto

lemma same_cluster_df_Inr:
  "''Cluster'' \<in> set (columns all_df) \<Longrightarrow>
     same_cluster_df all_df cid = Inr (all_df\<lparr>rows := filter (row_matches cid) (rows all_df)\<rparr>)"
  by (simp add: same_cluster_df_def)

lemma present_results_metric:
  assumes "same_cluster_df all_df cid = Inr scdf"
  shows "\<exists>rest res. present_results cluster_meta all_df cid =
           (Header (header_text (cluster_name cluster_meta cid))
              # Markdown (cluster_desc cluster_meta cid)
              # Metric metric_label (len scdf) # rest, res)"
  using assms by (auto simp: present_results_def Let_def split: prod.splits)

text \<open>
  Claim C1. For a participant table with a \<open>Cluster\<close> column and any predicted
  identifier, the filter succeeds, keeps the columns, and the length of its result is the
  number of rows whose cluster equals the identifier; every row occurs in the result as
  often as in the table when its cluster equals the identifier, and not at all otherwise;
  and that number is the metric the page displays, after the header and the description.
\<close>

theorem peer_group_count:
  assumes "''Cluster'' \<in> set (columns all_df)"
  shows "\<exists>scdf. same_cluster_df all_df cid = Inr scdf
           \<and> columns scdf = columns all_df
           \<and> len scdf = count_cluster cid (rows all_df)
           \<and> (\<forall>r. count_list (rows scdf) r
                  = (if py_eq (Cluster r) cid then count_list (rows all_df) r else 0))
           \<and> (\<exists>rest res. present_results cluster_meta all_df cid =
                 (Header (header_text (cluster_name cluster_meta cid))
                    # Markdown (cluster_desc cluster_meta cid)
                    # Metric metric_label (count_cluster cid (rows all_df)) # rest, res))"
proof -
  let ?scdf = "all_df\<lparr>rows := filter (row_matches cid) (rows all_df)\<rparr>"
  have s: "same_cluster_df all_df cid = Inr ?scdf"
    using assms by (rule same_cluster_df_Inr)
  have l: "len ?scdf = count_cluster cid (rows all_df)"
    by (simp add: len_def count_cluster_filter)
  have c: "\<forall>r. count_list (rows ?scdf) r
             = (if py_eq (Cluster r) cid then count_list (rows all_df) r else 0)"
    by (simp add: count_list_filter row_matches_def)
  from present_results_metric [OF s, of cluster_meta] l
  have m: "\<exists>rest res. present_results cluster_meta all_df cid =
                 (Header (header_text (cluster_name cluster_meta cid))
                    # Markdown (cluster_desc cluster_meta cid)
                    # Metric metric_label (count_cluster cid (rows all_df)) # rest, res)"
    by simp
  from s l c m show ?thesis by simp
qed

theorem peer_group_count_witness:
  "\<exists>scdf. same_cluster_df df_int_ids (PInt 0) = Inr scdf \<and> len scdf = 2"
proof -
  have h: "''Cluster'' \<in> set (columns df_int_ids)"
    by (simp add: df_int_ids_def)
  have n: "count_cluster (PInt 0) (rows df_int_ids) = 2"
    by (simp add: df_int_ids_def mk_row_def)
  from peer_group_count [OF h, of "PInt 0" Map.empty] n show ?thesis
    by auto
qed

section \<open>The page: results\<close>

lemma sort_values_Inr:
  "col \<in> set (columns df) \<Longrightarrow> sort_values col df = Inr (df\<lparr>rows := sort_rows col (rows df)\<rparr>)"
  by (simp add: sort_values_def)

lemma chart_age_eq:
  "chart_age s =
     (s\<lparr>shown := shown s @
          (if ''age'' \<in> set (columns (frame s))
           then [plot ((frame s)\<lparr>rows := sort_rows ''age'' (rows (frame s))\<rparr>) ''age'' title_age ''Wiek'']
           else [])\<rparr>, Ok ())"
  by (simp add: chart_age_def sort_values_Inr)

lemma chart_col_eq:
  "chart_col col title xt s =
     s\<lparr>shown := shown s @
          (if col \<in> set (columns (frame s)) then [plot (frame s) col title xt] else [])\<rparr>"
  by (simp add: chart_col_def)

lemma charts_eq:
  "charts scdf =
     (age_part scdf
        @ col_part scdf ''edu_level'' title_edu_level xt_edu_level
        @ col_part scdf ''fav_animals'' title_fav_animals xt_fav_animals
        @ col_part scdf ''fav_place'' title_fav_place ''Ulubione miejsce''
        @ col_part scdf ''gender'' title_gender xt_gender,
      Ok ())"
  by (simp add: charts_def chart_age_eq chart_col_eq age_part_def col_part_def)








section \<open>The charts: results\<close>











text \<open>
  Claim C10. The age step leaves the variable \<open>same_cluster_df\<close> as it was and only adds
  its chart, drawn from a sorted copy; the steps of the other columns read that variable,
  so in the whole section the charts of edu_level, fav_animals, fav_place and gender draw
  the filtered table in its original row order.
\<close>

theorem age_chart_leaves_frame:
  "frame (fst (chart_age s)) = frame s
   \<and> snd (chart_age s) = Ok ()
   \<and> shown (fst (chart_age s)) = shown s @ age_part (frame s)
   \<and> frame (chart_col col title xt s) = frame s
   \<and> shown (chart_col col title xt s) = shown s @ col_part (frame s) col title xt
   \<and> fst (charts scdf) =
       age_part scdf
         @ col_part scdf ''edu_level'' title_edu_level xt_edu_level
         @ col_part scdf ''fav_animals'' title_fav_animals xt_fav_animals
         @ col_part scdf ''fav_place'' title_fav_place ''Ulubione miejsce''
         @ col_part scdf ''gender'' title_gender xt_gender"
  by (simp add: chart_age_eq chart_col_eq charts_eq age_part_def col_part_def)

lemma sort_rows_df_peers:
  "sort_rows ''age'' (rows df_peers)
     = [mk_row2 ''18-24'' ''Kobieta'' (PInt 0), mk_row2 ''25-34'' ''Kobieta'' (PInt 0)]"
  by (simp add: sort_rows_def df_peers_def mk_row2_def cell_key_def)

theorem age_chart_leaves_frame_witness:
  "fst (charts df_peers) =
     [plot (df_peers\<lparr>rows := [mk_row2 ''18-24'' ''Kobieta'' (PInt 0),
                               mk_row2 ''25-34'' ''Kobieta'' (PInt 0)]\<rparr>)
        ''age'' title_age ''Wiek'',
      plot df_peers ''gender'' title_gender xt_gender]
   \<and> rows df_peers = [mk_row2 ''25-34'' ''Kobieta'' (PInt 0), mk_row2 ''18-24'' ''Kobieta'' (PInt 0)]"
proof -
  have c: "columns df_peers = [''age'', ''gender'', ''Cluster'']"
    and r: "rows df_peers = [mk_row2 ''25-34'' ''Kobieta'' (PInt 0), mk_row2 ''18-24'' ''Kobieta'' (PInt 0)]"
    by (simp_all add: df_peers_def)
  have a: "age_part df_peers =
     [plot (df_peers\<lparr>rows := [mk_row2 ''18-24'' ''Kobieta'' (PInt 0),
                               mk_row2 ''25-34'' ''Kobieta'' (PInt 0)]\<rparr>)
        ''age'' title_age ''Wiek'']"
    by (simp add: age_part_def c sort_rows_df_peers)
  have g: "col_part df_peers ''gender'' title_gender xt_gender
             = [plot df_peers ''gender'' title_gender xt_gender]"
    "col_part df_peers ''edu_level'' title_edu_level xt_edu_level = []"
    "col_part df_peers ''fav_animals'' title_fav_animals xt_fav_animals = []"
    "col_part df_peers ''fav_place'' title_fav_place ''Ulubione miejsce'' = []"
    by (simp_all add: col_part_def c)
  from age_chart_leaves_frame [of _ _ _ _ df_peers]
  have "fst (charts df_peers) =
       age_part df_peers
         @ col_part df_peers ''edu_level'' title_edu_level xt_edu_level
         @ col_part df_peers ''fav_animals'' title_fav_animals xt_fav_animals
         @ col_part df_peers ''fav_place'' title_fav_place ''Ulubione miejsce''
         @ col_part df_peers ''gender'' title_gender xt_gender"
    by blast
  with a g r show ?thesis by simp
qed

section \<open>The participants cache: results\<close>

lemma get_all_participants_Ok_quiet:
  "get_all_participants w p m sig = (els, Ok df) \<Longrightarrow> els = []"
  by (auto simp: get_all_participants_def split: if_splits sum.splits)

lemma cached_participants_hit:
  "data_cache c (p, sig) = Some df \<Longrightarrow>
     cached_get_all_participants w c p m sig = (([], Ok df), c)"
  by (simp add: cached_get_all_participants_def st_cache_def)

lemma cached_participants_miss:
  "data_cache c (p, sig) = None \<Longrightarrow>
     fst (cached_get_all_participants w c p m sig) = get_all_participants w p m sig"
  by (simp add: cached_get_all_participants_def st_cache_def split: res.splits)

lemma cached_participants_store:
  "data_cache c (p, sig) = None \<Longrightarrow> get_all_participants w p m sig = (els, Ok df) \<Longrightarrow>
     data_cache (snd (cached_get_all_participants w c p m sig)) = (data_cache c)((p, sig) \<mapsto> df)"
  by (simp add: cached_get_all_participants_def st_cache_def)

lemma cached_participants_other_key:
  "k \<noteq> (p, sig) \<Longrightarrow>
     data_cache (snd (cached_get_all_participants w c p m sig)) k = data_cache c k"
  by (simp add: cached_get_all_participants_def st_cache_def split: option.splits res.splits)

text \<open>
  Claim C7, as amended. The cached \<open>get_all_participants\<close> is keyed by the path and the
  signature only. A stored entry is returned whatever the file system and the model are now.
  Without an entry the body runs (recomputation). After a call that computed and stored a
  table, a second call with the same path and signature returns what the first computed;
  that is the result of recomputing whenever recomputing would give what the first call
  gave. A call with a new signature, for which nothing is stored, recomputes; and two
  artifacts of different sizes have different signatures.
\<close>

theorem participants_cache:
  "(data_cache c (p, sig) = Some df \<longrightarrow>
      cached_get_all_participants w c p m sig = (([], Ok df), c))
   \<and> (data_cache c (p, sig) = None \<longrightarrow>
      fst (cached_get_all_participants w c p m sig) = get_all_participants w p m sig)
   \<and> (data_cache c (p, sig) = None \<and> get_all_participants w p m sig = (els, Ok df) \<longrightarrow>
      fst (cached_get_all_participants w2 (snd (cached_get_all_participants w c p m sig)) p m2 sig)
        = get_all_participants w p m sig)
   \<and> (data_cache c (p, sig) = None \<and> get_all_participants w p m sig = (els, Ok df)
        \<and> get_all_participants w2 p m2 sig = get_all_participants w p m sig \<longrightarrow>
      fst (cached_get_all_participants w2 (snd (cached_get_all_participants w c p m sig)) p m2 sig)
        = get_all_participants w2 p m2 sig)
   \<and> (sig2 \<noteq> sig \<and> data_cache c (p, sig2) = None \<longrightarrow>
      fst (cached_get_all_participants w2 (snd (cached_get_all_participants w c p m sig)) p m2 sig2)
        = get_all_participants w2 p m2 sig2)
   \<and> (pkl_stat w name = Inr s1 \<and> pkl_stat w2 name = Inr s2 \<and> st_size s1 \<noteq> st_size s2 \<longrightarrow>
      get_model_signature w name \<noteq> get_model_signature w2 name)"
proof (intro conjI impI)
  assume "data_cache c (p, sig) = Some df"
  then show "cached_get_all_participants w c p m sig = (([], Ok df), c)"
    by (rule cached_participants_hit)
next
  assume "data_cache c (p, sig) = None"
  then show "fst (cached_get_all_participants w c p m sig) = get_all_participants w p m sig"
    by (rule cached_participants_miss)
next
  assume a: "data_cache c (p, sig) = None \<and> get_all_participants w p m sig = (els, Ok df)"
  then have e: "els = []" using get_all_participants_Ok_quiet by blast
  from a have "data_cache (snd (cached_get_all_participants w c p m sig)) (p, sig) = Some df"
    by (simp add: cached_participants_store)
  then have "cached_get_all_participants w2 (snd (cached_get_all_participants w c p m sig)) p m2 sig
               = (([], Ok df), snd (cached_get_all_participants w c p m sig))"
    by (rule cached_participants_hit)
  with a e show "fst (cached_get_all_participants w2
                        (snd (cached_get_all_participants w c p m sig)) p m2 sig)
                   = get_all_participants w p m sig"
    by simp
next
  assume a: "data_cache c (p, sig) = None \<and> get_all_participants w p m sig = (els, Ok df)
        \<and> get_all_participants w2 p m2 sig = get_all_participants w p m sig"
  then have e: "els = []" using get_all_participants_Ok_quiet by blast
  from a have "data_cache (snd (cached_get_all_participants w c p m sig)) (p, sig) = Some df"
    by (simp add: cached_participants_store)
  then have "cached_get_all_participants w2 (snd (cached_get_all_participants w c p m sig)) p m2 sig
               = (([], Ok df), snd (cached_get_all_participants w c p m sig))"
    by (rule cached_participants_hit)
  with a e show "fst (cached_get_all_participants w2
                        (snd (cached_get_all_participants w c p m sig)) p m2 sig)
                   = get_all_participants w2 p m2 sig"
    by simp
next
  assume a: "sig2 \<noteq> sig \<and> data_cache c (p, sig2) = None"
  then have "data_cache (snd (cached_get_all_participants w c p m sig)) (p, sig2) = None"
    by (simp add: cached_participants_other_key)
  then show "fst (cached_get_all_participants w2
                    (snd (cached_get_all_participants w c p m sig)) p m2 sig2)
               = get_all_participants w2 p m2 sig2"
    by (rule cached_participants_miss)
next
  assume "pkl_stat w name = Inr s1 \<and> pkl_stat w2 name = Inr s2 \<and> st_size s1 \<noteq> st_size s2"
  then show "get_model_signature w name \<noteq> get_model_signature w2 name"
    by (simp add: get_model_signature_def signature_of_inj)
qed

lemma labelled_one:
  "get_all_participants (world_of (\<lambda>p. True) csv_one) DATA_FILE (label_all (PInt 0)) sig
     = ([], Ok \<lparr>columns = [''age'', ''Cluster''], rows = [mk_row ''25-34'' (PInt 0)]\<rparr>)"
  by (simp add: get_all_participants_def world_of_def predict_model_def label_all_def
      csv_one_def mk_row_def)

lemma labelled_two:
  "get_all_participants (world_of (\<lambda>p. True) csv_two) DATA_FILE (label_all (PInt 0)) sig
     = ([], Ok \<lparr>columns = [''age'', ''Cluster''],
                rows = [mk_row ''25-34'' (PInt 0), mk_row ''18-24'' (PInt 0)]\<rparr>)"
  by (simp add: get_all_participants_def world_of_def predict_model_def label_all_def
      csv_two_def mk_row_def)

lemma no_caches_data: "data_cache no_caches k = None"
  by (simp add: no_caches_def)

lemma same_signature_worlds:
  "get_model_signature (world_of ex csv) name = get_model_signature (world_of ex2 csv2) name"
  by (simp add: get_model_signature_def pkl_stat_def world_of_def)

text \<open>
  Claim C7 as stated fails: two renders with the same path and the same signature, the data
  file rewritten in between; the second render is served the table of the first, which is
  not what recomputing gives.
\<close>

theorem stale_dataset_counterexample:
  "get_model_signature (world_of (\<lambda>p. True) csv_one) MODEL_NAME
     = get_model_signature (world_of (\<lambda>p. True) csv_two) MODEL_NAME
   \<and> fst (cached_get_all_participants (world_of (\<lambda>p. True) csv_two)
            (snd (cached_get_all_participants (world_of (\<lambda>p. True) csv_one) no_caches
                    DATA_FILE (label_all (PInt 0))
                    (get_model_signature (world_of (\<lambda>p. True) csv_one) MODEL_NAME)))
            DATA_FILE (label_all (PInt 0))
            (get_model_signature (world_of (\<lambda>p. True) csv_two) MODEL_NAME))
       \<noteq> get_all_participants (world_of (\<lambda>p. True) csv_two) DATA_FILE (label_all (PInt 0))
            (get_model_signature (world_of (\<lambda>p. True) csv_two) MODEL_NAME)"
proof -
  let ?wA = "world_of (\<lambda>p. True) csv_one"
  let ?wB = "world_of (\<lambda>p. True) csv_two"
  let ?m = "label_all (PInt 0)"
  let ?sig = "get_model_signature ?wA MODEL_NAME"
  let ?c1 = "snd (cached_get_all_participants ?wA no_caches DATA_FILE ?m ?sig)"
  have sg: "get_model_signature ?wB MODEL_NAME = ?sig"
    by (rule same_signature_worlds)
  have "data_cache ?c1 (DATA_FILE, ?sig)
          = Some \<lparr>columns = [''age'', ''Cluster''], rows = [mk_row ''25-34'' (PInt 0)]\<rparr>"
    using cached_participants_store [OF no_caches_data labelled_one] by simp
  then have "cached_get_all_participants ?wB ?c1 DATA_FILE ?m ?sig
      = (([], Ok \<lparr>columns = [''age'', ''Cluster''], rows = [mk_row ''25-34'' (PInt 0)]\<rparr>), ?c1)"
    by (rule cached_participants_hit)
  then have "fst (cached_get_all_participants ?wB ?c1 DATA_FILE ?m ?sig)
               \<noteq> get_all_participants ?wB DATA_FILE ?m ?sig"
    by (simp add: labelled_two)
  with sg show ?thesis by simp
qed

theorem participants_cache_witness:
  "fst (cached_get_all_participants (world_of (\<lambda>p. True) csv_one) no_caches DATA_FILE
          (label_all (PInt 0)) ''model_4:1:1024'')
     = ([], Ok \<lparr>columns = [''age'', ''Cluster''], rows = [mk_row ''25-34'' (PInt 0)]\<rparr>)
   \<and> fst (cached_get_all_participants (world_of (\<lambda>p. True) csv_two)
            (snd (cached_get_all_participants (world_of (\<lambda>p. True) csv_one) no_caches DATA_FILE
                    (label_all (PInt 0)) ''model_4:1:1024''))
            DATA_FILE (label_all (PInt 1)) ''model_4:1:1024'')
       = ([], Ok \<lparr>columns = [''age'', ''Cluster''], rows = [mk_row ''25-34'' (PInt 0)]\<rparr>)
   \<and> fst (cached_get_all_participants (world_of (\<lambda>p. True) csv_one)
            (snd (cached_get_all_participants (world_of (\<lambda>p. True) csv_one) no_caches DATA_FILE
                    (label_all (PInt 0)) ''model_4:1:1024''))
            DATA_FILE (label_all (PInt 0)) ''model_4:1:1024'')
       = get_all_participants (world_of (\<lambda>p. True) csv_one) DATA_FILE (label_all (PInt 0))
           ''model_4:1:1024''
   \<and> fst (cached_get_all_participants (world_of (\<lambda>p. True) csv_two)
            (snd (cached_get_all_participants (world_of (\<lambda>p. True) csv_one) no_caches DATA_FILE
                    (label_all (PInt 0)) ''model_4:1:1024''))
            DATA_FILE (label_all (PInt 0)) ''model_4:1:2048'')
       = ([], Ok \<lparr>columns = [''age'', ''Cluster''],
                  rows = [mk_row ''25-34'' (PInt 0), mk_row ''18-24'' (PInt 0)]\<rparr>)
   \<and> get_model_signature (demo_world 1 1024) ''model_4''
       \<noteq> get_model_signature (demo_world 1 2048) ''model_4''"
proof -
  let ?wA = "world_of (\<lambda>p. True) csv_one"
  let ?wB = "world_of (\<lambda>p. True) csv_two"
  let ?m = "label_all (PInt 0)"
  let ?sig = "''model_4:1:1024''"
  let ?dfA = "\<lparr>columns = [''age'', ''Cluster''], rows = [mk_row ''25-34'' (PInt 0)]\<rparr>"
  let ?c1 = "snd (cached_get_all_participants ?wA no_caches DATA_FILE ?m ?sig)"
  note h0 = no_caches_data [of "(DATA_FILE, ?sig)"]
  note hA = labelled_one [of ?sig]
  from participants_cache [of no_caches DATA_FILE ?sig _ ?wA ?m] h0 hA
  have a: "fst (cached_get_all_participants ?wA no_caches DATA_FILE ?m ?sig) = ([], Ok ?dfA)"
    by simp
  from participants_cache
         [of no_caches DATA_FILE ?sig ?dfA ?wA ?m "[]" ?wB "label_all (PInt 1)"] h0 hA
  have b: "fst (cached_get_all_participants ?wB ?c1 DATA_FILE (label_all (PInt 1)) ?sig)
             = ([], Ok ?dfA)"
    by simp
  from participants_cache [of no_caches DATA_FILE ?sig ?dfA ?wA ?m "[]" ?wA ?m] h0 hA
  have c: "fst (cached_get_all_participants ?wA ?c1 DATA_FILE ?m ?sig)
             = get_all_participants ?wA DATA_FILE ?m ?sig"
    by simp
  have n: "''model_4:1:2048'' \<noteq> ?sig" by simp
  from participants_cache
         [of no_caches DATA_FILE ?sig _ ?wA ?m _ ?wB ?m "''model_4:1:2048''"]
       n no_caches_data [of "(DATA_FILE, ''model_4:1:2048'')"]
  have d: "fst (cached_get_all_participants ?wB ?c1 DATA_FILE ?m ''model_4:1:2048'')
             = get_all_participants ?wB DATA_FILE ?m ''model_4:1:2048''"
    by blast
  have p1: "pkl_stat (demo_world 1 1024) ''model_4'' = Inr \<lparr>st_mtime_ns = 1, st_size = 1024\<rparr>"
    and p2: "pkl_stat (demo_world 1 2048) ''model_4'' = Inr \<lparr>st_mtime_ns = 1, st_size = 2048\<rparr>"
    by (simp_all add: pkl_stat_def demo_world_def)
  have sz: "st_size \<lparr>st_mtime_ns = 1, st_size = 1024\<rparr> \<noteq> st_size \<lparr>st_mtime_ns = 1, st_size = 2048\<rparr>"
    by simp
  from participants_cache
         [of _ _ _ _ "demo_world 1 1024" _ _ "demo_world 1 2048" _ _ "''model_4''"
             "\<lparr>st_mtime_ns = 1, st_size = 1024\<rparr>" "\<lparr>st_mtime_ns = 1, st_size = 2048\<rparr>"]
       p1 p2 sz
  have e: "get_model_signature (demo_world 1 1024) ''model_4''
             \<noteq> get_model_signature (demo_world 1 2048) ''model_4''"
    by blast
  from a b c d e show ?thesis by (simp add: labelled_two)
qed

section \<open>Fatal halts: results\<close>

























end
